theory Spec2Isabelle
  imports Complex_Main "HOL-Library.Word"
begin

section \<open>Data model of the NCDOT ingestor (main.go)\<close>

text \<open>
  Go's \<open>float64\<close>: the finite values are carried as the real number they denote, the
  three special values are kept apart because \<open>encoding/json\<close> refuses them and
  \<open>fmt\<close> prints them by name. Negative zero is not distinguished from zero.
\<close>

datatype float64 = Finite real | NaN | PosInf | NegInf

text \<open>A \<open>time.Time\<close> is carried as an instant, in nanoseconds since the epoch.\<close>

type_synonym Time = int

text \<open>The value tree that \<open>encoding/json\<close> writes for the Go values of this program.\<close>

datatype json =
    JNull
  | JBool bool
  | JInt int
  | JFloat real
  | JString string
  | JObject "(string \<times> json) list"

text \<open>\<open>type Incident struct\<close>: one record of the NCDOT feed. Go's \<open>int\<close> is 64 bits wide.\<close>

record Incident =
  ID :: "64 word"
  Latitude :: float64
  Longitude :: float64
  CommonName :: string
  Reason :: string
  Condition :: string
  IncidentType :: string
  Severity :: "64 word"
  Direction :: string
  Location :: string
  CountyID :: "64 word"
  CountyName :: string
  City :: string
  StartTime :: string
  EndTime :: string
  LastUpdate :: string
  Road :: string
  RouteID :: "64 word"
  LanesClosed :: "64 word"
  LanesTotal :: "64 word"
  Detour :: string
  CrossStreetPrefix :: string
  CrossStreetNumber :: "64 word"
  CrossStreetSuffix :: string
  CrossStreetCommonName :: string
  Event :: string
  CreatedFromConcurrent :: bool
  MovableConstruction :: string
  WorkZoneSpeedLimit :: "64 word"

text \<open>\<open>type WeatherData struct\<close>: one forecast period of the weather service.\<close>

record WeatherData =
  Temperature :: "64 word"
  WindSpeed :: string
  ShortForecast :: string
  Icon :: string

text \<open>
  \<open>NWSPointsResponse\<close> and \<open>NWSHourlyResponse\<close>: the nested \<open>Properties\<close> struct has one
  field each, which is what the record holds.
\<close>

record NWSPointsResponse =
  ForecastHourly :: string

record NWSHourlyResponse =
  Periods :: "WeatherData list"

subsection \<open>The table \<open>unified_incidents\<close>\<close>

text \<open>
  A row of \<open>unified_incidents\<close>: the thirteen columns the statement of
  \<open>saveToUnifiedDB\<close> names. Columns of the table that the statement does not name
  (the source mentions \<open>jurisdiction\<close>) live in the extension part of the record.
  \<open>sql.NullInt32\<close> and \<open>sql.NullString\<close> are options, \<open>None\<close> for SQL NULL.
\<close>

record unified_row =
  source :: string
  source_id :: string
  event_type :: string
  status :: string
  address :: string
  latitude :: float64
  longitude :: float64
  timestamp :: Time
  details :: json
  problem_detail :: string
  weather_temp :: "32 word option"
  weather_wind_speed :: "string option"
  weather_forecast :: "string option"

text \<open>The twelve positional arguments \<open>$1 .. $12\<close> handed to \<open>db.Exec\<close>.\<close>

record exec_args =
  arg_source :: string
  arg_source_id :: string
  arg_event_type :: string
  arg_address :: string
  arg_latitude :: float64
  arg_longitude :: float64
  arg_timestamp :: Time
  arg_details :: json
  arg_problem_detail :: string
  arg_weather_temp :: "32 word option"
  arg_weather_wind_speed :: "string option"
  arg_weather_forecast :: "string option"

text \<open>
  \<open>INSERT INTO unified_incidents (...) VALUES ($1, $2, $3, 'active', $4, ..., $12)\<close>:
  the row proposed for insertion; the columns the statement omits take the table's
  defaults \<open>dflt\<close>.
\<close>

definition proposed_row :: "'a \<Rightarrow> exec_args \<Rightarrow> 'a unified_row_scheme" where
  "proposed_row dflt a =
     \<lparr> source = arg_source a, source_id = arg_source_id a, event_type = arg_event_type a,
       status = ''active'', address = arg_address a, latitude = arg_latitude a,
       longitude = arg_longitude a, timestamp = arg_timestamp a, details = arg_details a,
       problem_detail = arg_problem_detail a, weather_temp = arg_weather_temp a,
       weather_wind_speed = arg_weather_wind_speed a,
       weather_forecast = arg_weather_forecast a, \<dots> = dflt \<rparr>"

text \<open>\<open>ON CONFLICT (source, source_id)\<close>: the existing row the proposed one collides with.\<close>

definition conflicts :: "exec_args \<Rightarrow> 'a unified_row_scheme \<Rightarrow> bool" where
  "conflicts a r \<longleftrightarrow> source r = arg_source a \<and> source_id r = arg_source_id a"

text \<open>
  \<open>DO UPDATE SET details = EXCLUDED.details, status = 'active',
  problem_detail = EXCLUDED.problem_detail, weather_temp = EXCLUDED.weather_temp,
  weather_wind_speed = EXCLUDED.weather_wind_speed,
  weather_forecast = EXCLUDED.weather_forecast\<close>.
\<close>

definition do_update :: "exec_args \<Rightarrow> 'a unified_row_scheme \<Rightarrow> 'a unified_row_scheme" where
  "do_update a r =
     r\<lparr> details := arg_details a, status := ''active'',
        problem_detail := arg_problem_detail a, weather_temp := arg_weather_temp a,
        weather_wind_speed := arg_weather_wind_speed a,
        weather_forecast := arg_weather_forecast a \<rparr>"

text \<open>
  The whole statement on a table, the rows in storage order: the conflicting row is
  updated in place, and without one the proposed row is appended.
\<close>

definition upsert :: "'a \<Rightarrow> exec_args \<Rightarrow> 'a unified_row_scheme list \<Rightarrow> 'a unified_row_scheme list" where
  "upsert dflt a t =
     (if list_ex (conflicts a) t
      then map (\<lambda>r. if conflicts a r then do_update a r else r) t
      else t @ [proposed_row dflt a])"

text \<open>The uniqueness constraint on \<open>(source, source_id)\<close> that \<open>ON CONFLICT\<close> refers to.\<close>

definition row_key :: "'a unified_row_scheme \<Rightarrow> string \<times> string" where
  "row_key r = (source r, source_id r)"

definition unique_keys :: "'a unified_row_scheme list \<Rightarrow> bool" where
  "unique_keys t \<longleftrightarrow> distinct (map row_key t)"

definition rows_for :: "string \<Rightarrow> string \<Rightarrow> 'a unified_row_scheme list \<Rightarrow> 'a unified_row_scheme list" where
  "rows_for src sid t = filter (\<lambda>r. source r = src \<and> source_id r = sid) t"

subsection \<open>Library functions the program calls on its own data\<close>

text \<open>\<open>strconv.Itoa\<close>: the decimal digits of a signed 64-bit integer.\<close>

definition digit :: "nat \<Rightarrow> char" where
  "digit d = ''0123456789'' ! d"

fun digits10 :: "nat \<Rightarrow> string" where
  "digits10 n =
     (if n < 10 then [digit n]
      else digits10 (n div 10) @ [digit (n mod 10)])"

declare digits10.simps [simp del]

definition Itoa :: "64 word \<Rightarrow> string" where
  "Itoa i =
     (if sint i < 0 then CHR ''-'' # digits10 (nat (- sint i)) else digits10 (nat (sint i)))"

text \<open>
  \<open>fmt.Sprintf("%.4f", x)\<close>: the exact value is rounded to a whole number of
  ten-thousandths, a tie going to the even neighbour, and written with four digits after
  the point. \<open>round_half_even\<close> is applied to magnitudes only.
\<close>

definition round_half_even :: "real \<Rightarrow> nat" where
  "round_half_even y =
     (let f = nat \<lfloor>y\<rfloor>; d = y - real f
      in if d < 1 / 2 then f else if 1 / 2 < d then f + 1 else if even f then f else f + 1)"

definition pad4 :: "nat \<Rightarrow> string" where
  "pad4 n =
     [digit (n div 1000 mod 10), digit (n div 100 mod 10), digit (n div 10 mod 10),
      digit (n mod 10)]"

definition Sprintf_4f :: "float64 \<Rightarrow> string" where
  "Sprintf_4f x =
     (case x of
        NaN \<Rightarrow> ''NaN''
      | PosInf \<Rightarrow> ''+Inf''
      | NegInf \<Rightarrow> ''-Inf''
      | Finite v \<Rightarrow>
          (let n = round_half_even (\<bar>v\<bar> * 10000)
           in (if v < 0 then ''-'' else []) @ digits10 (n div 10000) @ ''.'' @ pad4 (n mod 10000)))"

text \<open>
  \<open>json.Marshal\<close> on the values of this program. A struct becomes an object with one
  member per field, named by the field's tag, in declaration order; an \<open>int\<close> becomes a
  number; a \<open>float64\<close> becomes a number unless it is NaN or infinite, on which
  \<open>json.Marshal\<close> returns an error.
\<close>

definition encode_float :: "float64 \<Rightarrow> json option" where
  "encode_float x = (case x of Finite v \<Rightarrow> Some (JFloat v) | _ \<Rightarrow> None)"

definition encode_int :: "64 word \<Rightarrow> json" where
  "encode_int i = JInt (sint i)"

definition encode_Incident :: "Incident \<Rightarrow> json option" where
  "encode_Incident i =
     (case encode_float (Latitude i) of
        None \<Rightarrow> None
      | Some la \<Rightarrow>
     (case encode_float (Longitude i) of
        None \<Rightarrow> None
      | Some lo \<Rightarrow>
          Some (JObject
            [(''id'', encode_int (ID i)),
             (''latitude'', la),
             (''longitude'', lo),
             (''commonName'', JString (CommonName i)),
             (''reason'', JString (Reason i)),
             (''condition'', JString (Condition i)),
             (''incidentType'', JString (IncidentType i)),
             (''severity'', encode_int (Severity i)),
             (''direction'', JString (Direction i)),
             (''location'', JString (Location i)),
             (''countyId'', encode_int (CountyID i)),
             (''countyName'', JString (CountyName i)),
             (''city'', JString (City i)),
             (''start'', JString (StartTime i)),
             (''end'', JString (EndTime i)),
             (''lastUpdate'', JString (LastUpdate i)),
             (''road'', JString (Road i)),
             (''routeId'', encode_int (RouteID i)),
             (''lanesClosed'', encode_int (LanesClosed i)),
             (''lanesTotal'', encode_int (LanesTotal i)),
             (''detour'', JString (Detour i)),
             (''crossStreetPrefix'', JString (CrossStreetPrefix i)),
             (''crossStreetNumber'', encode_int (CrossStreetNumber i)),
             (''crossStreetSuffix'', JString (CrossStreetSuffix i)),
             (''crossStreetCommonName'', JString (CrossStreetCommonName i)),
             (''event'', JString (Event i)),
             (''createdFromConcurrent'', JBool (CreatedFromConcurrent i)),
             (''movableConstruction'', JString (MovableConstruction i)),
             (''workZoneSpeedLimit'', encode_int (WorkZoneSpeedLimit i))])))"

definition encode_WeatherData :: "WeatherData \<Rightarrow> json" where
  "encode_WeatherData w =
     JObject
       [(''temperature'', encode_int (Temperature w)),
        (''windSpeed'', JString (WindSpeed w)),
        (''shortForecast'', JString (ShortForecast w)),
        (''icon'', JString (Icon w))]"

subsection \<open>Errors, log lines, the outside world\<close>

text \<open>
  A Go \<open>error\<close>: a message, or \<open>fmt.Errorf("<prefix>: %w", err)\<close> around another error.
\<close>

datatype error = Err string | Wrap string error

text \<open>The three \<open>log.Printf\<close> lines of the processing path, with their arguments.\<close>

datatype log_line =
    WarnTimestamp string error
  | WarnWeather "64 word" error
  | ErrorSaving "64 word" error

text \<open>
  \<open>json.Marshal(details)\<close> for the map literal of \<open>saveToUnifiedDB\<close>. A map is written
  with its keys sorted, so \<open>raw_incident\<close> precedes \<open>weather\<close>; a nil \<open>*WeatherData\<close> is
  written as \<open>null\<close>.
\<close>

definition json_Marshal_details :: "Incident \<Rightarrow> WeatherData option \<Rightarrow> error + json" where
  "json_Marshal_details incident weatherData =
     (case encode_Incident incident of
        None \<Rightarrow> Inl (Err ''json: unsupported value'')
      | Some raw \<Rightarrow>
          Inr (JObject
            [(''raw_incident'', raw),
             (''weather'', case weatherData of None \<Rightarrow> JNull | Some w \<Rightarrow> encode_WeatherData w)]))"

text \<open>The member of a JSON object stored under a key.\<close>

definition member :: "json \<Rightarrow> string \<Rightarrow> json option" where
  "member j k = (case j of JObject kvs \<Rightarrow> map_of kvs k | _ \<Rightarrow> None)"

text \<open>
  An \<open>*http.Response\<close> as the program reads it: the status code, the status line, and
  what \<open>io.ReadAll\<close> returns for the body.
\<close>

record Response =
  StatusCode :: int
  Status :: string
  Body :: "error + string"

text \<open>
  What the program does not decide itself. \<open>client_Do n url\<close> is the answer to a GET of
  \<open>url\<close> issued after \<open>n\<close> earlier requests; \<open>time_Now n\<close> is the clock when it is read
  after \<open>n\<close> earlier readings; \<open>db_fault n args\<close> is the error, if any, with
  which the database rejects the statement issued after \<open>n\<close> earlier ones.
  \<open>Unmarshal_points\<close> and \<open>Unmarshal_hourly\<close> are \<open>json.Unmarshal\<close> into the two response
  structs, \<open>time_Parse\<close> is \<open>time.Parse(time.RFC3339, _)\<close>, and \<open>http_NewRequest\<close> is the
  error, if any, of \<open>http.NewRequest("GET", url, nil)\<close>. \<open>column_defaults\<close> are the
  values that the table gives to columns an INSERT does not name.
\<close>

record 'a env =
  http_NewRequest :: "string \<Rightarrow> error option"
  client_Do :: "nat \<Rightarrow> string \<Rightarrow> error + Response"
  Unmarshal_points :: "string \<Rightarrow> error + NWSPointsResponse"
  Unmarshal_hourly :: "string \<Rightarrow> error + NWSHourlyResponse"
  time_Parse :: "string \<Rightarrow> error + Time"
  time_Now :: "nat \<Rightarrow> Time"
  db_fault :: "nat \<Rightarrow> exec_args \<Rightarrow> error option"
  column_defaults :: 'a

text \<open>
  Everything the processing path changes or emits: the table, the GET requests sent,
  the statements handed to \<open>db.Exec\<close>, how often the clock was read, and the log.
\<close>

record 'a state =
  table :: "'a unified_row_scheme list"
  requests :: "string list"
  statements :: "exec_args list"
  clock_reads :: nat
  logged :: "log_line list"

section \<open>The program\<close>

subsection \<open>\<open>getWeatherForIncident\<close>\<close>

text \<open>
  The function returns \<open>(*WeatherData, error)\<close> with exactly one of the two non-nil:
  the sum \<open>Inl err\<close> or \<open>Inr weather\<close>. Each \<open>client.Do\<close> appends its URL to \<open>requests\<close>.
\<close>

definition getWeatherForIncident ::
  "'a env \<Rightarrow> 'b state \<Rightarrow> float64 \<Rightarrow> float64 \<Rightarrow> (error + WeatherData) \<times> 'b state" where
  "getWeatherForIncident env s lat lon =
     (let pointsURL = ''https://api.weather.gov/points/'' @ Sprintf_4f lat @ '','' @ Sprintf_4f lon
      in case http_NewRequest env pointsURL of
        Some err \<Rightarrow> (Inl err, s)
      | None \<Rightarrow>
     (let s1 = s\<lparr>requests := requests s @ [pointsURL]\<rparr>
      in case client_Do env (length (requests s)) pointsURL of
        Inl err \<Rightarrow> (Inl (Wrap ''failed to fetch NWS points data'' err), s1)
      | Inr pointsResp \<Rightarrow>
          if StatusCode pointsResp \<noteq> 200
          then (Inl (Err (''NWS points API returned non-200 status: '' @ Status pointsResp)), s1)
          else
     (case Body pointsResp of
        Inl err \<Rightarrow> (Inl (Wrap ''failed to read NWS points response body'' err), s1)
      | Inr body \<Rightarrow>
     (case Unmarshal_points env body of
        Inl err \<Rightarrow> (Inl (Wrap ''failed to unmarshal NWS points JSON'' err), s1)
      | Inr pointsResponse \<Rightarrow>
          if ForecastHourly pointsResponse = []
          then (Inl (Err ''NWS points response did not contain a forecast URL''), s1)
          else
     (let hourlyURL = ForecastHourly pointsResponse @ ''?units=us''
      in case http_NewRequest env hourlyURL of
        Some err \<Rightarrow> (Inl err, s1)
      | None \<Rightarrow>
     (let s2 = s1\<lparr>requests := requests s1 @ [hourlyURL]\<rparr>
      in case client_Do env (length (requests s1)) hourlyURL of
        Inl err \<Rightarrow> (Inl (Wrap ''failed to fetch NWS hourly data'' err), s2)
      | Inr hourlyResp \<Rightarrow>
          if StatusCode hourlyResp \<noteq> 200
          then (Inl (Err (''NWS hourly API returned non-200 status: '' @ Status hourlyResp)), s2)
          else
     (case Body hourlyResp of
        Inl err \<Rightarrow> (Inl (Wrap ''failed to read NWS hourly response body'' err), s2)
      | Inr hourlyBody \<Rightarrow>
     (case Unmarshal_hourly env hourlyBody of
        Inl err \<Rightarrow> (Inl (Wrap ''failed to unmarshal NWS hourly JSON'' err), s2)
      | Inr hourlyResponse \<Rightarrow>
     (case Periods hourlyResponse of
        p # _ \<Rightarrow> (Inr p, s2)
      | [] \<Rightarrow> (Inl (Err ''no weather periods returned from NWS''), s2))))))))))"

subsection \<open>\<open>db.Exec\<close> with the statement of \<open>saveToUnifiedDB\<close>\<close>

text \<open>
  The statement is recorded as issued; the database either rejects it, leaving the table
  as it was, or runs it as one atomic statement.
\<close>

definition db_Exec :: "'a env \<Rightarrow> 'a state \<Rightarrow> exec_args \<Rightarrow> error option \<times> 'a state" where
  "db_Exec env s args =
     (let s1 = s\<lparr>statements := statements s @ [args]\<rparr>
      in case db_fault env (length (statements s)) args of
        Some err \<Rightarrow> (Some err, s1)
      | None \<Rightarrow> (None, s1\<lparr>table := upsert (column_defaults env) args (table s1)\<rparr>))"

subsection \<open>\<open>saveToUnifiedDB\<close>\<close>

text \<open>
  The values of \<open>source\<close>, \<open>sourceID\<close>, \<open>eventType\<close>, the three nullable weather columns
  prepared from \<open>weatherData\<close> (with \<open>int32(weatherData.Temperature)\<close> keeping the low 32
  bits), and the argument list of \<open>db.Exec\<close>.
\<close>

definition exec_arguments :: "Incident \<Rightarrow> Time \<Rightarrow> WeatherData option \<Rightarrow> json \<Rightarrow> exec_args" where
  "exec_arguments incident parsedTime weatherData detailsJSON =
     \<lparr> arg_source = ''NCDOT'', arg_source_id = Itoa (ID incident),
       arg_event_type = IncidentType incident, arg_address = Location incident,
       arg_latitude = Latitude incident, arg_longitude = Longitude incident,
       arg_timestamp = parsedTime, arg_details = detailsJSON,
       arg_problem_detail = Reason incident,
       arg_weather_temp =
         (case weatherData of None \<Rightarrow> None | Some w \<Rightarrow> Some (ucast (Temperature w))),
       arg_weather_wind_speed =
         (case weatherData of None \<Rightarrow> None | Some w \<Rightarrow> Some (WindSpeed w)),
       arg_weather_forecast =
         (case weatherData of None \<Rightarrow> None | Some w \<Rightarrow> Some (ShortForecast w)) \<rparr>"

text \<open>
  The function itself; the returned \<open>error\<close> is \<open>None\<close> for nil. A failed parse of the
  start time logs a warning and reads the clock; a failed weather lookup logs a warning
  and leaves \<open>weatherData\<close> nil; a failed \<open>json.Marshal\<close> returns; otherwise the result is
  that of \<open>db.Exec\<close>.
\<close>

definition saveToUnifiedDB :: "'a env \<Rightarrow> 'a state \<Rightarrow> Incident \<Rightarrow> error option \<times> 'a state" where
  "saveToUnifiedDB env s incident =
     (let (parsedTime, s1) =
            (case time_Parse env (StartTime incident) of
               Inr t \<Rightarrow> (t, s)
             | Inl err \<Rightarrow>
                 (time_Now env (clock_reads s),
                  s\<lparr>logged := logged s @ [WarnTimestamp (StartTime incident) err],
                    clock_reads := Suc (clock_reads s)\<rparr>));
          (weatherResult, s2) =
            getWeatherForIncident env s1 (Latitude incident) (Longitude incident);
          (weatherData, s3) =
            (case weatherResult of
               Inl err \<Rightarrow> (None, s2\<lparr>logged := logged s2 @ [WarnWeather (ID incident) err]\<rparr>)
             | Inr w \<Rightarrow> (Some w, s2))
      in case json_Marshal_details incident weatherData of
        Inl err \<Rightarrow> (Some (Wrap ''could not marshal unified details to JSON'' err), s3)
      | Inr detailsJSON \<Rightarrow>
          db_Exec env s3 (exec_arguments incident parsedTime weatherData detailsJSON))"

subsection \<open>The loop of \<open>main\<close>\<close>

text \<open>
  \<open>for _, incident := range allIncidents\<close> with the counter \<open>incidentsSaved\<close>; the result
  is the counter after the last record, which \<open>main\<close> logs.
\<close>

definition relevant :: "Incident \<Rightarrow> bool" where
  "relevant incident \<longleftrightarrow>
     IncidentType incident = ''Vehicle Crash'' \<or> IncidentType incident = ''Disabled Vehicle''"

fun main_loop :: "'a env \<Rightarrow> 'a state \<Rightarrow> Incident list \<Rightarrow> nat \<Rightarrow> nat \<times> 'a state" where
  "main_loop env s [] incidentsSaved = (incidentsSaved, s)"
| "main_loop env s (incident # rest) incidentsSaved =
     (if IncidentType incident = ''Vehicle Crash'' \<or> IncidentType incident = ''Disabled Vehicle''
      then
        (case saveToUnifiedDB env s incident of
           (Some err, s') \<Rightarrow>
             main_loop env (s'\<lparr>logged := logged s' @ [ErrorSaving (ID incident) err]\<rparr>) rest
               incidentsSaved
         | (None, s') \<Rightarrow> main_loop env s' rest (incidentsSaved + 1))
      else main_loop env s rest incidentsSaved)"

text \<open>
  What \<open>json.Unmarshal\<close> of the feed can hand to the loop: a JSON number is finite, and
  \<open>main\<close> stops with \<open>log.Fatalf\<close> on a number that does not fit a \<open>float64\<close>.
\<close>

definition is_finite :: "float64 \<Rightarrow> bool" where
  "is_finite x = (case x of Finite _ \<Rightarrow> True | _ \<Rightarrow> False)"

definition feed_decoded :: "Incident \<Rightarrow> bool" where
  "feed_decoded incident \<longleftrightarrow> is_finite (Latitude incident) \<and> is_finite (Longitude incident)"

section \<open>Concrete inputs\<close>

text \<open>
  The record of the feed and the forecast period used as running example: incident 555,
  a vehicle crash at latitude 35.78 = 1789/50 and longitude -78.64 = -1966/25, caused by
  debris, under a clear sky at 72 degrees.
\<close>

definition incident555 :: Incident where
  "incident555 =
     \<lparr> ID = 555, Latitude = Finite (1789 / 50), Longitude = Finite (- (1966 / 25)),
       CommonName = [], Reason = ''debris'', Condition = [], IncidentType = ''Vehicle Crash'',
       Severity = 2, Direction = ''N'', Location = ''I-40 near Exit 289'', CountyID = 92,
       CountyName = ''Wake'', City = ''Raleigh'', StartTime = ''2024-05-01T10:00:00Z'',
       EndTime = [], LastUpdate = [], Road = ''I-40'', RouteID = 40, LanesClosed = 1,
       LanesTotal = 4, Detour = [], CrossStreetPrefix = [], CrossStreetNumber = 0,
       CrossStreetSuffix = [], CrossStreetCommonName = [], Event = [],
       CreatedFromConcurrent = False, MovableConstruction = [], WorkZoneSpeedLimit = 0 \<rparr>"

text \<open>
  Two more sightings at the same place, a road closure, a record whose start time is
  not a date, and a Go value of the struct that no JSON document decodes to.
\<close>

definition incident556 :: Incident where
  "incident556 = incident555\<lparr> ID := 556, IncidentType := ''Disabled Vehicle'' \<rparr>"

definition incident557 :: Incident where
  "incident557 = incident555\<lparr> ID := 557, Reason := ''overturned truck'' \<rparr>"

definition closure558 :: Incident where
  "closure558 = incident555\<lparr> ID := 558, IncidentType := ''Road Closure'' \<rparr>"

definition undated559 :: Incident where
  "undated559 = incident555\<lparr> ID := 559, StartTime := ''not-a-date'' \<rparr>"

definition incident_nan :: Incident where
  "incident_nan = incident555\<lparr> ID := 560, Latitude := NaN \<rparr>"

definition clear72 :: WeatherData where
  "clear72 = \<lparr> Temperature = 72, WindSpeed = ''5 mph'', ShortForecast = ''Clear'', Icon = [] \<rparr>"

text \<open>
  A weather service that knows the grid point of incident 555 and answers 404 for any
  other coordinate; a parser that accepts the start time of incident 555; a clock; a
  database that accepts every statement.
\<close>

definition ok200 :: "string \<Rightarrow> Response" where
  "ok200 b = \<lparr> StatusCode = 200, Status = ''200 OK'', Body = Inr b \<rparr>"

definition notfound404 :: Response where
  "notfound404 = \<lparr> StatusCode = 404, Status = ''404 Not Found'', Body = Inr [] \<rparr>"

definition env0 :: "unit env" where
  "env0 =
     \<lparr> http_NewRequest = (\<lambda>url. None),
       client_Do = (\<lambda>n url.
         if url = ''https://api.weather.gov/points/35.7800,-78.6400'' then Inr (ok200 ''points'')
         else if url = ''https://api.weather.gov/gridpoints/RAH/73,57/forecast/hourly?units=us''
         then Inr (ok200 ''hourly'')
         else Inr notfound404),
       Unmarshal_points = (\<lambda>b.
         if b = ''points''
         then Inr \<lparr> ForecastHourly = ''https://api.weather.gov/gridpoints/RAH/73,57/forecast/hourly'' \<rparr>
         else Inl (Err ''unexpected end of JSON input'')),
       Unmarshal_hourly = (\<lambda>b.
         if b = ''hourly'' then Inr \<lparr> Periods = [clear72] \<rparr>
         else Inl (Err ''unexpected end of JSON input'')),
       time_Parse = (\<lambda>str.
         if str = ''2024-05-01T10:00:00Z'' then Inr 1714557600000000000
         else Inl (Err ''parsing time: cannot parse as 2006'')),
       time_Now = (\<lambda>n. 1793520000000000000 + int n),
       db_fault = (\<lambda>n a. None),
       column_defaults = () \<rparr>"

text \<open>The same world with the weather service down: every request is answered 503.\<close>

definition env_weather_down :: "unit env" where
  "env_weather_down =
     env0\<lparr> client_Do := (\<lambda>n url.
       Inr \<lparr> StatusCode = 503, Status = ''503 Service Unavailable'', Body = Inr [] \<rparr>) \<rparr>"

text \<open>The same world with a database that rejects the second statement it is handed.\<close>

definition env_reject_second :: "unit env" where
  "env_reject_second =
     env0\<lparr> db_fault := (\<lambda>n a.
       if n = 1 then Some (Err ''pq: new row violates check constraint'') else None) \<rparr>"

definition state0 :: "unit state" where
  "state0 = \<lparr> table = [], requests = [], statements = [], clock_reads = 0, logged = [] \<rparr>"

text \<open>The arguments of a first and of a later statement for incident 555.\<close>

definition args555 :: exec_args where
  "args555 =
     \<lparr> arg_source = ''NCDOT'', arg_source_id = ''555'', arg_event_type = ''Vehicle Crash'',
       arg_address = ''I-40 near Exit 289'', arg_latitude = Finite (1789 / 50),
       arg_longitude = Finite (- (1966 / 25)), arg_timestamp = 1714557600000000000,
       arg_details = JObject [(''raw_incident'', JNull), (''weather'', JNull)],
       arg_problem_detail = ''debris'', arg_weather_temp = None,
       arg_weather_wind_speed = None, arg_weather_forecast = None \<rparr>"

definition args555_later :: exec_args where
  "args555_later =
     \<lparr> arg_source = ''NCDOT'', arg_source_id = ''555'', arg_event_type = ''Disabled Vehicle'',
       arg_address = ''I-40 near Exit 290'', arg_latitude = Finite 36,
       arg_longitude = Finite (- 79), arg_timestamp = 1714561200000000000,
       arg_details = JObject [(''raw_incident'', JNull), (''weather'', JString ''Clear'')],
       arg_problem_detail = ''debris removed'', arg_weather_temp = Some 72,
       arg_weather_wind_speed = Some ''5 mph'', arg_weather_forecast = Some ''Clear'' \<rparr>"

text \<open>A row of another source, closed by whoever owns it.\<close>

definition row_other :: unified_row where
  "row_other =
     \<lparr> source = ''WAZE'', source_id = ''555'', event_type = ''Hazard'', status = ''closed'',
       address = ''Main St'', latitude = Finite 35, longitude = Finite (- 78),
       timestamp = 1714550000000000000, details = JNull, problem_detail = [],
       weather_temp = None, weather_wind_speed = None, weather_forecast = None \<rparr>"

section \<open>The statement on the table\<close>

lemma conflicts_do_update [simp]: "conflicts a (do_update b r) = conflicts a r"
  by (simp add: conflicts_def do_update_def)

lemma conflicts_proposed_row [simp]: "conflicts a (proposed_row d a)"
  by (simp add: conflicts_def proposed_row_def)

lemma do_update_twice [simp]: "do_update a (do_update a r) = do_update a r"
  by (simp add: do_update_def)

lemma do_update_proposed_row [simp]: "do_update a (proposed_row d a) = proposed_row d a"
  by (simp add: do_update_def proposed_row_def)

lemma row_key_do_update [simp]: "row_key (do_update a r) = row_key r"
  by (simp add: row_key_def do_update_def)

lemma conflicts_iff_key: "conflicts a r \<longleftrightarrow> row_key r = (arg_source a, arg_source_id a)"
  by (auto simp: conflicts_def row_key_def)

lemma list_ex_merged:
  "list_ex (conflicts a) (map (\<lambda>r. if conflicts a r then do_update a r else r) t) =
   list_ex (conflicts a) t"
  by (induction t) auto

lemma merged_twice:
  "map (\<lambda>r. if conflicts a r then do_update a r else r)
     (map (\<lambda>r. if conflicts a r then do_update a r else r) t) =
   map (\<lambda>r. if conflicts a r then do_update a r else r) t"
  by (induction t) auto

lemma merged_none:
  "\<not> list_ex (conflicts a) t \<Longrightarrow>
   map (\<lambda>r. if conflicts a r then do_update a r else r) t = t"
  by (induction t) auto

lemma keys_merged:
  "map row_key (map (\<lambda>r. if conflicts a r then do_update a r else r) t) = map row_key t"
  by (induction t) auto

lemma upsert_conflict_row:
  assumes "i < length t" and "conflicts a (t ! i)"
  shows "upsert d a t ! i = do_update a (t ! i)" and "length (upsert d a t) = length t"
proof -
  from assms have ex: "list_ex (conflicts a) t"
    by (auto simp: list_ex_iff)
  then show "upsert d a t ! i = do_update a (t ! i)"
    using assms by (simp add: upsert_def)
  from ex show "length (upsert d a t) = length t"
    by (simp add: upsert_def)
qed

lemma upsert_other_row:
  assumes "j < length t" and "\<not> conflicts a (t ! j)"
  shows "upsert d a t ! j = t ! j"
  using assms by (simp add: upsert_def nth_append)

lemma list_ex_upsert: "list_ex (conflicts a) (upsert d a t)"
  by (simp add: upsert_def list_ex_merged)

lemma upsert_idem: "upsert d a (upsert d a t) = upsert d a t"
proof (cases "list_ex (conflicts a) t")
  case True
  then show ?thesis by (simp add: upsert_def list_ex_merged merged_twice)
next
  case False
  then show ?thesis by (simp add: upsert_def merged_none)
qed

lemma unique_keys_upsert:
  assumes "unique_keys t"
  shows "unique_keys (upsert d a t)"
proof (cases "list_ex (conflicts a) t")
  case True
  then have "map row_key (upsert d a t) = map row_key t"
    by (simp add: upsert_def keys_merged del: map_map)
  with assms show ?thesis by (simp add: unique_keys_def)
next
  case False
  then have "row_key (proposed_row d a) \<notin> set (map row_key t)"
    by (auto simp: list_ex_iff conflicts_iff_key proposed_row_def row_key_def)
  with assms False show ?thesis by (simp add: unique_keys_def upsert_def)
qed

lemma filter_key_distinct:
  "distinct (map f t) \<Longrightarrow> length (filter (\<lambda>r. f r = k) t) \<le> 1"
proof (induction t)
  case Nil
  then show ?case by simp
next
  case (Cons r t)
  show ?case
  proof (cases "f r = k")
    case True
    with Cons.prems have "\<forall>x\<in>set t. f x \<noteq> k"
      by (auto simp: image_iff)
    then have "filter (\<lambda>r. f r = k) t = []"
      by (simp add: filter_empty_conv)
    with True show ?thesis by simp
  next
    case False
    with Cons show ?thesis by simp
  qed
qed

lemma rows_for_key: "rows_for src sid t = filter (\<lambda>r. row_key r = (src, sid)) t"
  by (simp add: rows_for_def row_key_def)

lemma rows_for_unique: "unique_keys t \<Longrightarrow> length (rows_for src sid t) \<le> 1"
  using filter_key_distinct [of row_key t "(src, sid)"]
  by (simp add: unique_keys_def rows_for_key)

lemma rows_for_upsert_nonempty:
  "rows_for (arg_source a) (arg_source_id a) (upsert d a t) \<noteq> []"
proof -
  from list_ex_upsert [of a d t] obtain r where "r \<in> set (upsert d a t)" and "conflicts a r"
    by (auto simp: list_ex_iff)
  then show ?thesis
    by (auto simp: rows_for_def filter_empty_conv conflicts_def)
qed

lemma rows_for_upsert_one:
  assumes "unique_keys t"
  shows "length (rows_for (arg_source a) (arg_source_id a) (upsert d a t)) = 1"
proof -
  have "length (rows_for (arg_source a) (arg_source_id a) (upsert d a t)) \<le> 1"
    using assms by (intro rows_for_unique unique_keys_upsert)
  moreover have "length (rows_for (arg_source a) (arg_source_id a) (upsert d a t)) \<noteq> 0"
    using rows_for_upsert_nonempty [of a d t] by simp
  ultimately show ?thesis by linarith
qed

lemma db_Exec_ok:
  "db_Exec env s a = (None, s') \<Longrightarrow>
   s' = s\<lparr>statements := statements s @ [a], table := upsert (column_defaults env) a (table s)\<rparr>"
  by (auto simp: db_Exec_def Let_def split: option.splits)

lemma db_Exec_rejected:
  "db_Exec env s a = (Some e, s') \<Longrightarrow> s' = s\<lparr>statements := statements s @ [a]\<rparr>"
  by (auto simp: db_Exec_def Let_def split: option.splits)

section \<open>What the functions do to the state\<close>

lemma getWeather_frame:
  "snd (getWeatherForIncident env s lat lon) =
     s\<lparr>requests := requests (snd (getWeatherForIncident env s lat lon))\<rparr>"
  by (simp add: getWeatherForIncident_def Let_def split: option.split sum.split list.split)

lemma getWeather_table [simp]:
  "table (snd (getWeatherForIncident env s lat lon)) = table s"
  by (subst getWeather_frame) simp

lemma getWeather_statements [simp]:
  "statements (snd (getWeatherForIncident env s lat lon)) = statements s"
  by (subst getWeather_frame) simp

lemma getWeather_clock_reads [simp]:
  "clock_reads (snd (getWeatherForIncident env s lat lon)) = clock_reads s"
  by (subst getWeather_frame) simp

lemma getWeather_logged [simp]:
  "logged (snd (getWeatherForIncident env s lat lon)) = logged s"
  by (subst getWeather_frame) simp

lemma logged_clock_swap:
  "(r::'a state)\<lparr>logged := l, clock_reads := c\<rparr> = r\<lparr>clock_reads := c, logged := l\<rparr>"
  by (rule state.equality) simp_all

lemma getWeather_commutes:
  "getWeatherForIncident env (s\<lparr>clock_reads := c, logged := l\<rparr>) lat lon =
     (fst (getWeatherForIncident env s lat lon),
      (snd (getWeatherForIncident env s lat lon))\<lparr>clock_reads := c, logged := l\<rparr>)"
  by (simp add: getWeatherForIncident_def Let_def split: option.split sum.split list.split)

text \<open>
  \<open>saveToUnifiedDB\<close> on a record that \<open>json.Marshal\<close> accepts: the call of \<open>db.Exec\<close> it
  ends with, the state that call starts from, and the arguments it is given.
\<close>

lemma saveToUnifiedDB_exec:
  assumes "encode_Incident inc = Some raw"
  shows "saveToUnifiedDB env s inc =
           db_Exec env
             (s\<lparr>requests :=
                  requests (snd (getWeatherForIncident env s (Latitude inc) (Longitude inc))),
                clock_reads :=
                  (case time_Parse env (StartTime inc) of
                     Inl e \<Rightarrow> Suc (clock_reads s) | Inr t \<Rightarrow> clock_reads s),
                logged := logged s
                  @ (case time_Parse env (StartTime inc) of
                       Inl e \<Rightarrow> [WarnTimestamp (StartTime inc) e] | Inr t \<Rightarrow> [])
                  @ (case fst (getWeatherForIncident env s (Latitude inc) (Longitude inc)) of
                       Inl e \<Rightarrow> [WarnWeather (ID inc) e] | Inr w \<Rightarrow> [])\<rparr>)
             (exec_arguments inc
                (case time_Parse env (StartTime inc) of
                   Inr t \<Rightarrow> t | Inl e \<Rightarrow> time_Now env (clock_reads s))
                (case fst (getWeatherForIncident env s (Latitude inc) (Longitude inc)) of
                   Inl e \<Rightarrow> None | Inr w \<Rightarrow> Some w)
                (JObject [(''raw_incident'', raw),
                   (''weather'',
                    case fst (getWeatherForIncident env s (Latitude inc) (Longitude inc)) of
                      Inl e \<Rightarrow> JNull | Inr w \<Rightarrow> encode_WeatherData w)]))"
proof -
  define R where
    "R = requests (snd (getWeatherForIncident env s (Latitude inc) (Longitude inc)))"
  have eq: "snd (getWeatherForIncident env s (Latitude inc) (Longitude inc)) = s\<lparr>requests := R\<rparr>"
    unfolding R_def by (rule getWeather_frame)
  show ?thesis
    using assms
    by (simp add: saveToUnifiedDB_def Let_def split_beta json_Marshal_details_def
        getWeather_commutes eq logged_clock_swap split: sum.split)
qed

text \<open>\<open>saveToUnifiedDB\<close> on a record that \<open>json.Marshal\<close> refuses.\<close>

lemma saveToUnifiedDB_marshal_error:
  assumes "encode_Incident inc = None"
  shows "fst (saveToUnifiedDB env s inc) =
           Some (Wrap ''could not marshal unified details to JSON''
             (Err ''json: unsupported value''))"
    and "table (snd (saveToUnifiedDB env s inc)) = table s"
    and "statements (snd (saveToUnifiedDB env s inc)) = statements s"
  using assms
  by (simp_all add: saveToUnifiedDB_def Let_def split_beta json_Marshal_details_def
      split: sum.split)

lemma feed_decoded_encodes: "feed_decoded inc \<Longrightarrow> \<exists>raw. encode_Incident inc = Some raw"
  by (auto simp: feed_decoded_def is_finite_def encode_Incident_def encode_float_def
      split: float64.splits)

text \<open>
  C1. When the pair \<open>(source, source_id)\<close> of the statement's arguments is already in the
  table, at row \<open>i\<close>, a successful \<open>db.Exec\<close> leaves the table with the same number of
  rows, and row \<open>i\<close> is the old row with exactly \<open>details\<close>, \<open>status\<close>, \<open>problem_detail\<close>,
  \<open>weather_temp\<close>, \<open>weather_wind_speed\<close> and \<open>weather_forecast\<close> replaced: \<open>source\<close>,
  \<open>source_id\<close>, \<open>event_type\<close>, \<open>address\<close>, \<open>latitude\<close>, \<open>longitude\<close>, \<open>timestamp\<close> and the
  columns the statement does not name are those of the old row. Rows of other pairs are
  untouched.
\<close>

theorem upsert_existing_pair_updates_only_mutable_fields:
  assumes "db_Exec env s a = (None, s')"
    and "i < length (table s)"
    and "conflicts a (table s ! i)"
  shows "length (table s') = length (table s)
     \<and> table s' ! i =
         (table s ! i)\<lparr> details := arg_details a, status := ''active'',
           problem_detail := arg_problem_detail a, weather_temp := arg_weather_temp a,
           weather_wind_speed := arg_weather_wind_speed a,
           weather_forecast := arg_weather_forecast a \<rparr>
     \<and> source (table s' ! i) = source (table s ! i)
     \<and> source_id (table s' ! i) = source_id (table s ! i)
     \<and> event_type (table s' ! i) = event_type (table s ! i)
     \<and> address (table s' ! i) = address (table s ! i)
     \<and> latitude (table s' ! i) = latitude (table s ! i)
     \<and> longitude (table s' ! i) = longitude (table s ! i)
     \<and> timestamp (table s' ! i) = timestamp (table s ! i)
     \<and> unified_row.more (table s' ! i) = unified_row.more (table s ! i)
     \<and> (\<forall>j < length (table s). \<not> conflicts a (table s ! j) \<longrightarrow> table s' ! j = table s ! j)"
proof -
  from assms(1) have t: "table s' = upsert (column_defaults env) a (table s)"
    by (auto dest: db_Exec_ok)
  have row: "table s' ! i = do_update a (table s ! i)"
    and len: "length (table s') = length (table s)"
    using upsert_conflict_row [OF assms(2,3)] by (simp_all add: t)
  have others: "\<forall>j < length (table s). \<not> conflicts a (table s ! j) \<longrightarrow> table s' ! j = table s ! j"
    by (simp add: t upsert_other_row)
  from len others show ?thesis
    by (simp add: row do_update_def)
qed

theorem upsert_existing_pair_updates_only_mutable_fields_witness:
  "db_Exec env0 (state0\<lparr>table := [row_other, proposed_row () args555]\<rparr>) args555_later
     = (None, state0\<lparr>table :=
          [row_other,
           \<lparr> source = ''NCDOT'', source_id = ''555'', event_type = ''Vehicle Crash'',
             status = ''active'', address = ''I-40 near Exit 289'',
             latitude = Finite (1789 / 50), longitude = Finite (- (1966 / 25)),
             timestamp = 1714557600000000000,
             details = JObject [(''raw_incident'', JNull), (''weather'', JString ''Clear'')],
             problem_detail = ''debris removed'', weather_temp = Some 72,
             weather_wind_speed = Some ''5 mph'', weather_forecast = Some ''Clear'' \<rparr>],
          statements := [args555_later]\<rparr>)
   \<and> event_type (table (snd (db_Exec env0
         (state0\<lparr>table := [row_other, proposed_row () args555]\<rparr>) args555_later)) ! 1)
       = ''Vehicle Crash''
   \<and> timestamp (table (snd (db_Exec env0
         (state0\<lparr>table := [row_other, proposed_row () args555]\<rparr>) args555_later)) ! 1)
       = 1714557600000000000"
proof -
  let ?s = "state0\<lparr>table := [row_other, proposed_row () args555]\<rparr>"
  let ?s' = "?s\<lparr>statements := statements ?s @ [args555_later],
                table := upsert (column_defaults env0) args555_later (table ?s)\<rparr>"
  have run: "db_Exec env0 ?s args555_later = (None, ?s')"
    by (simp add: db_Exec_def env0_def)
  have pos: "1 < length (table ?s)"
    by simp
  have hit: "conflicts args555_later (table ?s ! 1)"
    by (simp add: conflicts_def proposed_row_def args555_def args555_later_def)
  from upsert_existing_pair_updates_only_mutable_fields [OF run pos hit]
  have "table ?s' ! 1 =
          (table ?s ! 1)\<lparr> details := arg_details args555_later, status := ''active'',
            problem_detail := arg_problem_detail args555_later,
            weather_temp := arg_weather_temp args555_later,
            weather_wind_speed := arg_weather_wind_speed args555_later,
            weather_forecast := arg_weather_forecast args555_later \<rparr>"
    and "table ?s' ! 0 = table ?s ! 0"
    and "length (table ?s') = length (table ?s)"
    by (simp_all add: conflicts_def row_other_def args555_later_def)
  then have "table ?s' = [row_other,
           \<lparr> source = ''NCDOT'', source_id = ''555'', event_type = ''Vehicle Crash'',
             status = ''active'', address = ''I-40 near Exit 289'',
             latitude = Finite (1789 / 50), longitude = Finite (- (1966 / 25)),
             timestamp = 1714557600000000000,
             details = JObject [(''raw_incident'', JNull), (''weather'', JString ''Clear'')],
             problem_detail = ''debris removed'', weather_temp = Some 72,
             weather_wind_speed = Some ''5 mph'', weather_forecast = Some ''Clear'' \<rparr>]"
    by (simp add: list_eq_iff_nth_eq less_Suc_eq proposed_row_def args555_def
        args555_later_def)
  with run show ?thesis
    by (simp add: state0_def)
qed

text \<open>
  C2. Handing the same arguments to \<open>db.Exec\<close> twice in succession, both accepted: the
  table after the second statement is the table after the first, row for row and field
  for field; and on a table that satisfies the uniqueness constraint on
  \<open>(source, source_id)\<close> it holds exactly one row for the pair, the constraint still
  holding.
\<close>

theorem upsert_twice_is_upsert_once:
  assumes "db_Exec env s a = (None, s1)"
    and "db_Exec env s1 a = (None, s2)"
    and "unique_keys (table s)"
  shows "table s2 = table s1
     \<and> length (rows_for (arg_source a) (arg_source_id a) (table s2)) = 1
     \<and> rows_for (arg_source a) (arg_source_id a) (table s2)
         = rows_for (arg_source a) (arg_source_id a) (table s1)
     \<and> unique_keys (table s2)"
proof -
  from assms(1) have t1: "table s1 = upsert (column_defaults env) a (table s)"
    by (auto dest: db_Exec_ok)
  from assms(2) have "table s2 = upsert (column_defaults env) a (table s1)"
    by (auto dest: db_Exec_ok)
  then have same: "table s2 = table s1"
    by (simp add: t1 upsert_idem)
  have "length (rows_for (arg_source a) (arg_source_id a) (table s1)) = 1"
    unfolding t1 using assms(3) by (rule rows_for_upsert_one)
  moreover have "unique_keys (table s1)"
    unfolding t1 using assms(3) by (rule unique_keys_upsert)
  ultimately show ?thesis
    by (simp add: same)
qed

theorem upsert_twice_is_upsert_once_witness:
  "table (snd (db_Exec env0 (snd (db_Exec env0 (state0\<lparr>table := [row_other]\<rparr>) args555)) args555))
     = [row_other, proposed_row () args555]
   \<and> table (snd (db_Exec env0 (state0\<lparr>table := [row_other]\<rparr>) args555))
     = [row_other, proposed_row () args555]
   \<and> length (rows_for ''NCDOT'' ''555''
        (table (snd (db_Exec env0 (snd (db_Exec env0 (state0\<lparr>table := [row_other]\<rparr>) args555))
           args555)))) = 1"
proof -
  let ?s = "state0\<lparr>table := [row_other]\<rparr>"
  let ?r1 = "db_Exec env0 ?s args555"
  let ?r2 = "db_Exec env0 (snd ?r1) args555"
  have miss: "\<not> conflicts args555 row_other"
    by (simp add: conflicts_def row_other_def args555_def)
  have t1: "table (snd ?r1) = [row_other, proposed_row () args555]"
    by (simp add: db_Exec_def env0_def state0_def upsert_def miss)
  have "fst ?r1 = None"
    by (simp add: db_Exec_def env0_def)
  then have first: "?r1 = (None, snd ?r1)"
    by (simp add: prod_eq_iff)
  have "fst ?r2 = None"
    by (simp add: db_Exec_def env0_def)
  then have second: "?r2 = (None, snd ?r2)"
    by (simp add: prod_eq_iff)
  have uniq: "unique_keys (table ?s)"
    by (simp add: unique_keys_def)
  note twice = upsert_twice_is_upsert_once [OF first second uniq]
  from twice have same: "table (snd ?r2) = table (snd ?r1)"
    by (rule conjunct1)
  from twice
  have "length (rows_for (arg_source args555) (arg_source_id args555) (table (snd ?r2))) = 1"
    by (elim conjE)
  then have "length (rows_for ''NCDOT'' ''555'' (table (snd ?r2))) = 1"
    by (simp add: args555_def)
  with same t1 show ?thesis
    by simp
qed

end
